theory Spec2Isabelle
  imports Main "HOL-Library.Sublist"
begin

section \<open>PagerDuty failure-rate alerting: data model\<close>

text \<open>
  Shallow embedding of \<^verbatim>\<open>litellm/integrations/pagerduty/pagerduty.py\<close>
  (class \<^verbatim>\<open>PagerDutyAlerting\<close>).

  Modelling decisions:
  \<^item> A timezone-aware UTC \<^verbatim>\<open>datetime\<close> is an \<open>int\<close>: microseconds since the epoch.
    \<^verbatim>\<open>timedelta(seconds=w)\<close> for an integer \<open>w\<close> is \<open>w * 1000000\<close>
    microseconds. Both have a bounded range in Python: a \<^verbatim>\<open>timedelta\<close> of more than
    999999999 days and a \<^verbatim>\<open>datetime\<close> outside the years 1 to 9999 raise
    \<^verbatim>\<open>OverflowError\<close>, and the model returns that error.
  \<^item> \<^verbatim>\<open>datetime.now(timezone.utc)\<close> is a read of the wall clock; the value read is
    the parameter \<open>now\<close> of the ingestion.
  \<^item> A \<^verbatim>\<open>TypedDict\<close> built with all its keys given is a record; a key whose value
    is \<^verbatim>\<open>Optional[str]\<close> is a \<open>string option\<close>. A plain dictionary that is only
    read with \<^verbatim>\<open>.get\<close> is a map \<open>string \<rightharpoonup> string\<close>.
  \<^item> A Python exception is a value of type \<open>error\<close>; a method that mutates
    \<^verbatim>\<open>self\<close> takes the object and returns the updated one. The state reached when
    an exception leaves a method is kept, since the mutations made before a \<^verbatim>\<open>raise\<close>
    persist in Python.
  \<^item> The window and the threshold of \<^verbatim>\<open>AlertingConfig\<close> are integers, as their
    defaults 60 and 1 are.
  \<^item> The HTTP client (\<^verbatim>\<open>AsyncHTTPHandler.post\<close>) is outside the file: it is the
    parameter \<open>post\<close>, a function from the request to either a raised error or a response.
    The base class initialiser \<^verbatim>\<open>SlackAlerting.__init__\<close> is outside the file as
    well and is taken to return normally without touching the three attributes modelled.
\<close>

type_synonym datetime = int

datatype error = ValueError string | OverflowError | TransportError string

record FailureEvent =
  timestamp :: datetime
  error_class :: "string option"
  error_code :: "string option"
  error_llm_provider :: "string option"
  user_api_key_hash :: "string option"
  user_api_key_alias :: "string option"
  user_api_key_org_id :: "string option"
  user_api_key_team_id :: "string option"
  user_api_key_user_id :: "string option"
  user_api_key_team_alias :: "string option"
  user_api_key_end_user_id :: "string option"

text \<open>\<^verbatim>\<open>AlertingConfig\<close> is read with \<^verbatim>\<open>.get(key, default)\<close>: \<open>None\<close> is an absent key.\<close>

record AlertingConfig =
  failure_threshold :: "int option"
  failure_threshold_window_seconds :: "int option"

text \<open>The attributes of a \<^verbatim>\<open>PagerDutyAlerting\<close> object; \<open>failure_events\<close> is
  \<^verbatim>\<open>self._failure_events\<close>.\<close>

record PagerDutyAlerting =
  api_key :: string
  alerting_config :: AlertingConfig
  failure_events :: "FailureEvent list"

text \<open>The standard logging object: the two keys the ingestion reads. Each is absent
  (or \<^verbatim>\<open>None\<close>) or a dictionary.\<close>

record StandardLoggingPayload =
  metadata :: "(string \<rightharpoonup> string) option"
  error_information :: "(string \<rightharpoonup> string) option"

record kwargs =
  standard_logging_object :: "StandardLoggingPayload option"

text \<open>JSON values, as far as the request body needs them. A Python dictionary keeps its
  insertion order: an object is an association list.\<close>

datatype json = JString string | JArray "json list" | JObject "(string \<times> json) list"

record http_request =
  url :: string
  json_body :: json
  headers :: "(string \<times> string) list"

record http_response =
  status_code :: nat

type_synonym transport = "http_request \<Rightarrow> error + http_response"

text \<open>What one call of the ingestion hook leaves behind: the exception that left it (if
  any), the object as mutated, and the requests handed to the HTTP client.\<close>

record outcome =
  raised :: "error option"
  engine :: PagerDutyAlerting
  posted :: "http_request list"


section \<open>Construction\<close>

text \<open>\<^verbatim>\<open>__init__\<close>, lines 27-37. \<^verbatim>\<open>os.getenv\<close> reads the environment, a map from
  names to values; \<^verbatim>\<open>not _api_key\<close> holds for \<^verbatim>\<open>None\<close> and for the empty string.\<close>

definition PagerDutyAlerting_init ::
  "(string \<rightharpoonup> string) \<Rightarrow> AlertingConfig \<Rightarrow> error + PagerDutyAlerting" where
  "PagerDutyAlerting_init environ cfg =
     (case environ ''PAGERDUTY_API_KEY'' of
        None \<Rightarrow> Inl (ValueError ''PAGERDUTY_API_KEY is not set'')
      | Some k \<Rightarrow>
          if k = [] then Inl (ValueError ''PAGERDUTY_API_KEY is not set'')
          else Inr \<lparr>api_key = k, alerting_config = cfg, failure_events = []\<rparr>)"


section \<open>Helpers\<close>

subsection \<open>Pruning\<close>

text \<open>\<^verbatim>\<open>fe.get("timestamp")\<close>: every \<^verbatim>\<open>FailureEvent\<close> carries the key, set to a
  \<^verbatim>\<open>datetime\<close> at line 62, and a \<^verbatim>\<open>datetime\<close> is always truthy.\<close>

definition fe_get_timestamp :: "FailureEvent \<Rightarrow> datetime option" where
  "fe_get_timestamp fe = Some (timestamp fe)"

text \<open>The loop of lines 163-167; \<open>acc\<close> is the local list \<^verbatim>\<open>_failure_events\<close>.\<close>

fun prune_loop :: "datetime \<Rightarrow> FailureEvent list \<Rightarrow> FailureEvent list \<Rightarrow> FailureEvent list" where
  "prune_loop cutoff [] acc = acc"
| "prune_loop cutoff (fe # rest) acc =
     (case fe_get_timestamp fe of
        None \<Rightarrow> prune_loop cutoff rest acc
      | Some ts \<Rightarrow>
          if cutoff < ts then prune_loop cutoff rest (acc @ [fe])
          else prune_loop cutoff rest acc)"

definition prune_failure_events :: "PagerDutyAlerting \<Rightarrow> datetime \<Rightarrow> PagerDutyAlerting" where
  "prune_failure_events self cutoff =
     self\<lparr>failure_events := prune_loop cutoff (failure_events self) []\<rparr>"

subsection \<open>Summaries\<close>

text \<open>\<^verbatim>\<open>xs[-n:]\<close>: the start index \<open>- n\<close>, when negative, counts from the end and is
  clamped at 0; otherwise it is clamped at the length.\<close>

definition slice_last :: "'a list \<Rightarrow> int \<Rightarrow> 'a list" where
  "slice_last xs n =
     (let len = int (length xs);
          start = - n;
          start' = (if start < 0 then max 0 (start + len) else min start len)
      in drop (nat start') xs)"

text \<open>\<^verbatim>\<open>v or "N/A"\<close>: \<^verbatim>\<open>None\<close> and the empty string are falsy.\<close>

definition or_na :: "string option \<Rightarrow> string" where
  "or_na v = (case v of None \<Rightarrow> ''N/A'' | Some s \<Rightarrow> if s = [] then ''N/A'' else s)"

definition summary_line :: "FailureEvent \<Rightarrow> string" where
  "summary_line fe =
     or_na (error_class fe) @ '' (code: '' @ or_na (error_code fe) @
       '', provider: '' @ or_na (error_llm_provider fe) @ '')''"

fun summaries_loop :: "FailureEvent list \<Rightarrow> string list \<Rightarrow> string list" where
  "summaries_loop [] summaries = summaries"
| "summaries_loop (fe # rest) summaries = summaries_loop rest (summaries @ [summary_line fe])"

text \<open>\<^verbatim>\<open>_build_error_summaries\<close>, lines 170-187: the result and the object after the
  call.\<close>

definition build_error_summaries :: "PagerDutyAlerting \<Rightarrow> int \<Rightarrow> string list \<times> PagerDutyAlerting" where
  "build_error_summaries self max_errors =
     (let recent_events = slice_last (failure_events self) max_errors
      in (summaries_loop recent_events [], self))"


section \<open>Dispatch\<close>

text \<open>\<^verbatim>\<open>send_alert_to_pagerduty\<close>, lines 130-157: the result of the post and the
  requests handed to the client.\<close>

definition send_alert_to_pagerduty ::
  "transport \<Rightarrow> PagerDutyAlerting \<Rightarrow> string \<Rightarrow> (string \<times> json) list
     \<Rightarrow> (error + http_response) \<times> http_request list" where
  "send_alert_to_pagerduty post self alert_message custom_details =
     (let payload = JObject
            [(''payload'', JObject
                [(''summary'', JString alert_message),
                 (''severity'', JString ''critical''),
                 (''source'', JString ''LiteLLM Alert''),
                 (''component'', JString ''LiteLLM''),
                 (''custom_details'', JObject custom_details)]),
             (''routing_key'', JString (api_key self)),
             (''event_action'', JString ''trigger'')];
          req = \<lparr>url = ''https://events.pagerduty.com/v2/enqueue'',
                 json_body = payload,
                 headers = [(''Content-Type'', ''application/json'')]\<rparr>
      in (post req, [req]))"


section \<open>Ingestion\<close>

text \<open>\<^verbatim>\<open>str\<close> of an integer, as an f-string renders it.\<close>

definition digit_char :: "nat \<Rightarrow> char" where
  "digit_char d = ''0123456789'' ! d"

fun str_nat :: "nat \<Rightarrow> string" where
  "str_nat n = (if n < 10 then [digit_char n] else str_nat (n div 10) @ [digit_char (n mod 10)])"

declare str_nat.simps [simp del]

definition str_int :: "int \<Rightarrow> string" where
  "str_int i = (if i < 0 then CHR ''-'' # str_nat (nat (- i)) else str_nat (nat i))"

text \<open>\<^verbatim>\<open>d or {}\<close> for an optional dictionary (an empty dictionary is falsy and is
  replaced by an empty one).\<close>

definition dict_or_empty :: "(string \<rightharpoonup> string) option \<Rightarrow> (string \<rightharpoonup> string)" where
  "dict_or_empty d = (case d of None \<Rightarrow> Map.empty | Some m \<Rightarrow> m)"

text \<open>\<^verbatim>\<open>config.get(key, default)\<close>.\<close>

definition config_get :: "int option \<Rightarrow> int \<Rightarrow> int" where
  "config_get v dflt = (case v of None \<Rightarrow> dflt | Some x \<Rightarrow> x)"

text \<open>\<^verbatim>\<open>timedelta(seconds=w)\<close> for an integer \<open>w\<close>: the constructor normalises to days
  and seconds of the day (\<^verbatim>\<open>divmod(w, 86400)\<close>) and raises \<^verbatim>\<open>OverflowError\<close> when
  the number of days exceeds 999999999 in magnitude. The value is returned in
  microseconds.\<close>

definition timedelta :: "int \<Rightarrow> error + int" where
  "timedelta seconds =
     (let days = seconds div 86400
      in if - 999999999 \<le> days \<and> days \<le> 999999999 then Inr (seconds * 1000000)
         else Inl OverflowError)"

text \<open>\<^verbatim>\<open>datetime.min\<close> (0001-01-01 00:00:00) and \<^verbatim>\<open>datetime.max\<close>
  (9999-12-31 23:59:59.999999) in microseconds since the epoch.\<close>

definition datetime_min :: datetime where
  "datetime_min = - 62135596800000000"

definition datetime_max :: datetime where
  "datetime_max = 253402300799999999"

text \<open>\<^verbatim>\<open>t - delta\<close> for a \<^verbatim>\<open>datetime\<close> and a \<^verbatim>\<open>timedelta\<close>: a result outside
  the years 1 to 9999 raises \<^verbatim>\<open>OverflowError\<close>.\<close>

definition datetime_sub :: "datetime \<Rightarrow> int \<Rightarrow> error + datetime" where
  "datetime_sub t delta =
     (let r = t - delta
      in if datetime_min \<le> r \<and> r \<le> datetime_max then Inr r else Inl OverflowError)"

text \<open>Line 83: \<^verbatim>\<open>now - timedelta(seconds=window_seconds)\<close>.\<close>

definition compute_cutoff :: "datetime \<Rightarrow> int \<Rightarrow> error + datetime" where
  "compute_cutoff now window_seconds =
     (case timedelta window_seconds of
        Inl e \<Rightarrow> Inl e
      | Inr delta \<Rightarrow> datetime_sub now delta)"

text \<open>Lines 54-75: the event built from the payload.\<close>

definition new_failure_event :: "datetime \<Rightarrow> StandardLoggingPayload \<Rightarrow> FailureEvent" where
  "new_failure_event now slp =
     (let event_metadata = dict_or_empty (metadata slp);
          error_info = dict_or_empty (error_information slp)
      in \<lparr>timestamp = now,
          error_class = error_info ''error_class'',
          error_code = error_info ''error_code'',
          error_llm_provider = error_info ''llm_provider'',
          user_api_key_hash = event_metadata ''user_api_key_hash'',
          user_api_key_alias = event_metadata ''user_api_key_alias'',
          user_api_key_org_id = event_metadata ''user_api_key_org_id'',
          user_api_key_team_id = event_metadata ''user_api_key_team_id'',
          user_api_key_user_id = event_metadata ''user_api_key_user_id'',
          user_api_key_team_alias = event_metadata ''user_api_key_team_alias'',
          user_api_key_end_user_id = event_metadata ''user_api_key_end_user_id''\<rparr>)"

definition alert_message_text :: "nat \<Rightarrow> int \<Rightarrow> string" where
  "alert_message_text n window_seconds =
     ''High LLM API Failure Rate: '' @ str_nat n @ '' failures '' @
     ''in the last '' @ str_int window_seconds @ '' seconds.''"

text \<open>\<^verbatim>\<open>async_log_failure_event\<close>, lines 39-104. The arguments \<^verbatim>\<open>response_obj\<close>,
  \<^verbatim>\<open>start_time\<close> and \<^verbatim>\<open>end_time\<close> are not read. When line 83 raises, the
  exception leaves the method after the append of lines 60-76: nothing is pruned,
  evaluated or posted. When the awaited send raises, the exception leaves the method at
  line 98 and line 104 is not reached.\<close>

definition async_log_failure_event ::
  "transport \<Rightarrow> PagerDutyAlerting \<Rightarrow> datetime \<Rightarrow> kwargs \<Rightarrow> outcome" where
  "async_log_failure_event post self now kw =
     (case standard_logging_object kw of
        None \<Rightarrow>
          \<lparr>raised = Some (ValueError ''standard_logging_object is required for PagerDutyAlerting''),
           engine = self, posted = []\<rparr>
      | Some slp \<Rightarrow>
          (let self1 = self\<lparr>failure_events := failure_events self @ [new_failure_event now slp]\<rparr>;
               window_seconds =
                 config_get (failure_threshold_window_seconds (alerting_config self1)) 60;
               threshold = config_get (failure_threshold (alerting_config self1)) 1
           in case compute_cutoff now window_seconds of
                Inl e \<Rightarrow> \<lparr>raised = Some e, engine = self1, posted = []\<rparr>
              | Inr cutoff \<Rightarrow>
                  (let self2 = prune_failure_events self1 cutoff
                   in if threshold \<le> int (length (failure_events self2)) then
                        (let (error_summaries, self3) = build_error_summaries self2 5;
                             alert_message =
                               alert_message_text (length (failure_events self3)) window_seconds;
                             custom_details =
                               [(''recent_errors'', JArray (map JString error_summaries))];
                             (res, reqs) =
                               send_alert_to_pagerduty post self3 alert_message custom_details
                         in case res of
                              Inl e \<Rightarrow> \<lparr>raised = Some e, engine = self3, posted = reqs\<rparr>
                            | Inr _ \<Rightarrow>
                                \<lparr>raised = None, engine = self3\<lparr>failure_events := []\<rparr>,
                                 posted = reqs\<rparr>)
                      else \<lparr>raised = None, engine = self2, posted = []\<rparr>)))"

text \<open>A sequence of ingestions on one object. Each call has its own clock reading,
  arguments and transport behaviour; an exception leaves that call only, and the next
  call starts from the object as the previous one left it. The trace keeps, for each
  call, the object it started from.\<close>

fun ingest_seq ::
  "PagerDutyAlerting \<Rightarrow> (transport \<times> datetime \<times> kwargs) list
     \<Rightarrow> (PagerDutyAlerting \<times> datetime \<times> kwargs \<times> outcome) list" where
  "ingest_seq self [] = []"
| "ingest_seq self ((post, now, kw) # rest) =
     (let out = async_log_failure_event post self now kw
      in (self, now, kw, out) # ingest_seq (engine out) rest)"


section \<open>Vocabulary of the statements\<close>

text \<open>The window and the threshold as lines 79-82 read them.\<close>

abbreviation window_of :: "PagerDutyAlerting \<Rightarrow> int" where
  "window_of self \<equiv> config_get (failure_threshold_window_seconds (alerting_config self)) 60"

abbreviation threshold_of :: "PagerDutyAlerting \<Rightarrow> int" where
  "threshold_of self \<equiv> config_get (failure_threshold (alerting_config self)) 1"

text \<open>Line 83 returns a cutoff: neither the \<^verbatim>\<open>timedelta\<close> nor the subtraction
  raises.\<close>

definition cutoff_in_range :: "PagerDutyAlerting \<Rightarrow> datetime \<Rightarrow> bool" where
  "cutoff_in_range self now =
     (case compute_cutoff now (window_of self) of Inl e \<Rightarrow> False | Inr c \<Rightarrow> True)"

text \<open>The store as line 84 leaves it when line 83 returns a cutoff, for a call at time
  \<open>now\<close> with payload \<open>slp\<close>: the append of lines 60-76 followed by the prune with
  that cutoff, \<open>now\<close> minus the window in microseconds. This is the list whose length
  line 87 compares with the threshold.\<close>

definition post_prune_events ::
  "PagerDutyAlerting \<Rightarrow> datetime \<Rightarrow> StandardLoggingPayload \<Rightarrow> FailureEvent list" where
  "post_prune_events self now slp =
     failure_events
       (prune_failure_events
          (self\<lparr>failure_events := failure_events self @ [new_failure_event now slp]\<rparr>)
          (now - window_of self * 1000000))"

text \<open>The request body as the specification writes it (its section 6). The
  specification types \<open>summary\<close>, \<open>source\<close>, \<open>component\<close> and \<open>routing_key\<close> as
  strings and \<open>recent_errors\<close> as a list of strings, and fixes \<open>severity\<close> and
  \<open>event_action\<close>. It is compared below with the body \<open>send_alert_to_pagerduty\<close> builds.\<close>

definition spec_request_body ::
  "string \<Rightarrow> string \<Rightarrow> string \<Rightarrow> string list \<Rightarrow> string \<Rightarrow> json" where
  "spec_request_body summary source component recent_errors routing_key =
     JObject
       [(''payload'', JObject
           [(''summary'', JString summary),
            (''severity'', JString ''critical''),
            (''source'', JString source),
            (''component'', JString component),
            (''custom_details'', JObject
               [(''recent_errors'', JArray (map JString recent_errors))])]),
        (''routing_key'', JString routing_key),
        (''event_action'', JString ''trigger'')]"


section \<open>Concrete inputs\<close>

definition example_config :: AlertingConfig where
  "example_config = \<lparr>failure_threshold = Some 3, failure_threshold_window_seconds = Some 60\<rparr>"

definition default_config :: AlertingConfig where
  "default_config = \<lparr>failure_threshold = None, failure_threshold_window_seconds = None\<rparr>"

definition example_engine :: PagerDutyAlerting where
  "example_engine =
     \<lparr>api_key = ''R0UT1NG'', alerting_config = example_config, failure_events = []\<rparr>"

definition default_engine :: PagerDutyAlerting where
  "default_engine =
     \<lparr>api_key = ''R0UT1NG'', alerting_config = default_config, failure_events = []\<rparr>"

definition example_event :: "datetime \<Rightarrow> string option \<Rightarrow> FailureEvent" where
  "example_event t c =
     \<lparr>timestamp = t, error_class = c, error_code = None, error_llm_provider = None,
      user_api_key_hash = None, user_api_key_alias = None, user_api_key_org_id = None,
      user_api_key_team_id = None, user_api_key_user_id = None,
      user_api_key_team_alias = None, user_api_key_end_user_id = None\<rparr>"

text \<open>A store of three events, recorded 10, 20 and 30 seconds after the epoch.\<close>

definition example_store :: PagerDutyAlerting where
  "example_store = example_engine\<lparr>failure_events :=
     [example_event 10000000 None, example_event 20000000 (Some ''Timeout''),
      example_event 30000000 (Some [])]\<rparr>"

definition zero_window_engine :: PagerDutyAlerting where
  "zero_window_engine =
     \<lparr>api_key = ''R0UT1NG'',
      alerting_config = \<lparr>failure_threshold = Some 1, failure_threshold_window_seconds = Some 0\<rparr>,
      failure_events = [example_event 5000000 None]\<rparr>"

text \<open>A window beyond the range of \<^verbatim>\<open>datetime\<close>, with the default threshold.\<close>

definition far_window_engine :: PagerDutyAlerting where
  "far_window_engine =
     \<lparr>api_key = ''R0UT1NG'',
      alerting_config =
        \<lparr>failure_threshold = None, failure_threshold_window_seconds = Some 100000000000\<rparr>,
      failure_events = []\<rparr>"

definition example_payload :: StandardLoggingPayload where
  "example_payload =
     \<lparr>metadata = Some [''user_api_key_alias'' \<mapsto> ''batch''],
      error_information =
        Some [''error_class'' \<mapsto> ''RateLimitError'', ''error_code'' \<mapsto> ''429'']\<rparr>"

definition example_kwargs :: kwargs where
  "example_kwargs = \<lparr>standard_logging_object = Some example_payload\<rparr>"

definition example_environ :: "string \<rightharpoonup> string" where
  "example_environ = [''PAGERDUTY_API_KEY'' \<mapsto> ''R0UT1NG'']"

definition post_accepts :: transport where
  "post_accepts req = Inr \<lparr>status_code = 202\<rparr>"

definition post_raises :: transport where
  "post_raises req = Inl (TransportError ''connection refused'')"

text \<open>Window 60 s, threshold 3: failures at 0 s, 10 s and 20 s, then one at 80 s.\<close>

definition example_calls :: "(transport \<times> datetime \<times> kwargs) list" where
  "example_calls =
     [(post_accepts, 0, example_kwargs),
      (post_accepts, 10000000, example_kwargs),
      (post_accepts, 20000000, example_kwargs),
      (post_accepts, 80000000, example_kwargs)]"

definition example_request :: http_request where
  "example_request =
     \<lparr>url = ''https://events.pagerduty.com/v2/enqueue'',
      json_body = JObject
        [(''payload'', JObject
            [(''summary'',
              JString ''High LLM API Failure Rate: 1 failures in the last 60 seconds.''),
             (''severity'', JString ''critical''),
             (''source'', JString ''LiteLLM Alert''),
             (''component'', JString ''LiteLLM''),
             (''custom_details'', JObject
                [(''recent_errors'',
                  JArray [JString ''RateLimitError (code: 429, provider: N/A)''])])]),
         (''routing_key'', JString ''R0UT1NG''),
         (''event_action'', JString ''trigger'')],
      headers = [(''Content-Type'', ''application/json'')]\<rparr>"


section \<open>Basic facts about the loops\<close>

lemma prune_loop_filter:
  "prune_loop cutoff evs acc = acc @ filter (\<lambda>fe. cutoff < timestamp fe) evs"
  by (induction evs arbitrary: acc) (simp_all add: fe_get_timestamp_def)

lemma failure_events_prune:
  "failure_events (prune_failure_events self cutoff) =
     filter (\<lambda>fe. cutoff < timestamp fe) (failure_events self)"
  by (simp add: prune_failure_events_def prune_loop_filter)

lemma summaries_loop_map:
  "summaries_loop evs acc = acc @ map summary_line evs"
  by (induction evs arbitrary: acc) simp_all

lemma slice_last_pos:
  "1 \<le> n \<Longrightarrow> slice_last xs n = drop (length xs - nat n) xs"
  by (auto simp: slice_last_def Let_def max_def nat_diff_distrib'
      intro: arg_cong [where f = "\<lambda>k. drop k xs"])

lemma slice_last_zero: "slice_last xs 0 = xs"
  by (simp add: slice_last_def)

lemma or_na_nonempty: "or_na v \<noteq> []"
  by (simp add: or_na_def split: option.splits)

lemma timestamp_new_failure_event: "timestamp (new_failure_event now slp) = now"
  by (simp add: new_failure_event_def Let_def)

lemma post_prune_events_filter:
  "post_prune_events self now slp =
     filter (\<lambda>fe. now - window_of self * 1000000 < timestamp fe)
       (failure_events self @ [new_failure_event now slp])"
  by (simp add: post_prune_events_def failure_events_prune)

text \<open>For \<open>max_errors\<close> of at least 1 the builder is positional: the lines are those
  of the last \<open>max_errors\<close> entries of the list, in the order of the list.\<close>

lemma summaries_last_max_errors:
  "1 \<le> max_errors \<Longrightarrow>
     fst (build_error_summaries self max_errors) =
       map summary_line
         (drop (length (failure_events self) - nat max_errors) (failure_events self))"
  by (simp add: build_error_summaries_def Let_def summaries_loop_map slice_last_pos)


section \<open>The cutoff of line 83\<close>

lemma cutoff_in_range_iff:
  "cutoff_in_range self now \<longleftrightarrow>
     - 999999999 \<le> window_of self div 86400 \<and> window_of self div 86400 \<le> 999999999 \<and>
     datetime_min \<le> now - window_of self * 1000000 \<and>
     now - window_of self * 1000000 \<le> datetime_max"
  by (auto simp: cutoff_in_range_def compute_cutoff_def timedelta_def datetime_sub_def Let_def
      split: if_splits)

lemma compute_cutoff_in_range:
  "cutoff_in_range self now \<Longrightarrow>
     compute_cutoff now (window_of self) = Inr (now - window_of self * 1000000)"
  by (simp add: cutoff_in_range_def compute_cutoff_def timedelta_def datetime_sub_def Let_def
      split: if_splits)

lemma compute_cutoff_out_of_range:
  "\<not> cutoff_in_range self now \<Longrightarrow> compute_cutoff now (window_of self) = Inl OverflowError"
  by (simp add: cutoff_in_range_def compute_cutoff_def timedelta_def datetime_sub_def Let_def
      split: if_splits)


section \<open>One call of the ingestion hook\<close>

lemma step_missing_payload:
  "standard_logging_object kw = None \<Longrightarrow>
     async_log_failure_event post self now kw =
       \<lparr>raised = Some (ValueError ''standard_logging_object is required for PagerDutyAlerting''),
        engine = self, posted = []\<rparr>"
  by (simp add: async_log_failure_event_def)

text \<open>When line 83 raises, the call ends with \<^verbatim>\<open>OverflowError\<close>: the new event has been
  appended, nothing is pruned, the threshold is not evaluated, nothing is posted.\<close>

lemma step_overflow:
  "standard_logging_object kw = Some slp \<Longrightarrow> \<not> cutoff_in_range self now \<Longrightarrow>
     async_log_failure_event post self now kw =
       \<lparr>raised = Some OverflowError,
        engine = self\<lparr>failure_events := failure_events self @ [new_failure_event now slp]\<rparr>,
        posted = []\<rparr>"
  by (simp add: async_log_failure_event_def Let_def compute_cutoff_out_of_range)

lemma step_posted:
  "standard_logging_object kw = Some slp \<Longrightarrow>
   posted (async_log_failure_event post self now kw) =
     (if cutoff_in_range self now \<and>
         threshold_of self \<le> int (length (post_prune_events self now slp))
      then snd (send_alert_to_pagerduty post
                  (prune_failure_events
                     (self\<lparr>failure_events := failure_events self @ [new_failure_event now slp]\<rparr>)
                     (now - window_of self * 1000000))
                  (alert_message_text (length (post_prune_events self now slp)) (window_of self))
                  [(''recent_errors'', JArray (map JString
                      (map summary_line (slice_last (post_prune_events self now slp) 5))))])
      else [])"
proof (cases "cutoff_in_range self now")
  case True
  assume "standard_logging_object kw = Some slp"
  with True show ?thesis
    by (simp add: async_log_failure_event_def post_prune_events_def Let_def
        compute_cutoff_in_range build_error_summaries_def send_alert_to_pagerduty_def
        summaries_loop_map split: sum.splits)
next
  case False
  assume "standard_logging_object kw = Some slp"
  with False show ?thesis by (simp add: step_overflow)
qed

lemma step_engine_no_dispatch:
  "standard_logging_object kw = Some slp \<Longrightarrow> cutoff_in_range self now \<Longrightarrow>
   \<not> threshold_of self \<le> int (length (post_prune_events self now slp)) \<Longrightarrow>
   async_log_failure_event post self now kw =
     \<lparr>raised = None,
      engine = self\<lparr>failure_events := post_prune_events self now slp\<rparr>,
      posted = []\<rparr>"
  by (simp add: async_log_failure_event_def post_prune_events_def Let_def
      compute_cutoff_in_range prune_failure_events_def)

lemma step_alerting_config:
  "alerting_config (engine (async_log_failure_event post self now kw)) = alerting_config self"
  by (simp add: async_log_failure_event_def Let_def prune_failure_events_def
      build_error_summaries_def send_alert_to_pagerduty_def
      split: option.splits sum.splits)

lemma step_api_key:
  "api_key (engine (async_log_failure_event post self now kw)) = api_key self"
  by (simp add: async_log_failure_event_def Let_def prune_failure_events_def
      build_error_summaries_def send_alert_to_pagerduty_def
      split: option.splits sum.splits)

text \<open>Along a sequence of calls the configuration and the routing key stay as they were
  at the start, and every entry of the trace is a call of the hook on the object the entry
  names.\<close>

lemma seq_invariants:
  "(s, now, kw, out) \<in> set (ingest_seq self calls) \<Longrightarrow>
     alerting_config s = alerting_config self \<and> api_key s = api_key self \<and>
     (\<exists>post. out = async_log_failure_event post s now kw)"
proof (induction calls arbitrary: self)
  case Nil
  then show ?case by simp
next
  case (Cons c calls)
  obtain post n k where c: "c = (post, n, k)" by (cases c)
  from Cons.prems c show ?case
    using Cons.IH [of "engine (async_log_failure_event post self n k)"]
    by (auto simp: Let_def step_alerting_config step_api_key)
qed

lemma cutoff_in_range_cong:
  "alerting_config s = alerting_config self \<Longrightarrow> cutoff_in_range s now = cutoff_in_range self now"
  by (simp add: cutoff_in_range_def)

lemmas example_defs = example_config_def default_config_def example_engine_def
  default_engine_def example_event_def example_store_def zero_window_engine_def
  far_window_engine_def example_payload_def example_kwargs_def example_environ_def
  post_accepts_def post_raises_def example_calls_def

lemmas model_defs = async_log_failure_event_def Let_def prune_failure_events_def
  build_error_summaries_def send_alert_to_pagerduty_def new_failure_event_def
  dict_or_empty_def config_get_def compute_cutoff_def timedelta_def datetime_sub_def
  datetime_min_def datetime_max_def cutoff_in_range_def fe_get_timestamp_def
  slice_last_def post_prune_events_def summaries_loop_map summary_line_def or_na_def

text \<open>A window of \<open>10\<^sup>1\<^sup>1\<close> seconds (some 3169 years) at the epoch: line 83 raises, the
  event stays appended, and nothing is posted although the default threshold is 1.\<close>

lemma far_window_overflows:
  "\<not> cutoff_in_range far_window_engine 0 \<and>
   async_log_failure_event post_accepts far_window_engine 0 example_kwargs =
     \<lparr>raised = Some OverflowError,
      engine = far_window_engine\<lparr>failure_events := [new_failure_event 0 example_payload]\<rparr>,
      posted = []\<rparr>"
  by (simp add: example_defs model_defs)


section \<open>Threshold evaluation and dispatch\<close>

text \<open>
  Claim C1. Along every sequence of ingestions on one object, each call that carries a
  payload and whose line 83 yields a cutoff (the window lies within the range of
  \<^verbatim>\<open>datetime\<close> arithmetic) hands a request to the transport exactly when the store, as
  the prune of that call leaves it, holds at least \<open>failure_threshold\<close> events: the
  comparison is \<open>\<ge>\<close>, so a store of exactly \<open>failure_threshold\<close> events dispatches, and
  a threshold of 0 or below dispatches on every such call. At most one request is issued
  per call and a call without payload issues none. When line 83 raises instead, the call
  ends with \<^verbatim>\<open>OverflowError\<close> before the prune: no evaluation takes place and nothing is
  posted.
\<close>

theorem threshold_crossing_dispatch:
  "\<forall>(s, now, kw, out) \<in> set (ingest_seq self calls).
     (standard_logging_object kw = None \<longrightarrow> posted out = []) \<and>
     length (posted out) \<le> 1 \<and>
     (\<forall>slp. standard_logging_object kw = Some slp \<longrightarrow>
        (cutoff_in_range self now \<longrightarrow>
           (posted out \<noteq> [] \<longleftrightarrow>
              threshold_of self \<le> int (length (post_prune_events s now slp))) \<and>
           (threshold_of self \<le> 0 \<longrightarrow> posted out \<noteq> []) \<and>
           (int (length (post_prune_events s now slp)) = threshold_of self \<longrightarrow>
              posted out \<noteq> [])) \<and>
        (\<not> cutoff_in_range self now \<longrightarrow>
           posted out = [] \<and> raised out = Some OverflowError))"
proof (clarify)
  fix s now kw out
  assume mem: "(s, now, kw, out) \<in> set (ingest_seq self calls)"
  from seq_invariants [OF mem] obtain post where
    cfg: "alerting_config s = alerting_config self" and
    out: "out = async_log_failure_event post s now kw" by blast
  have rng: "cutoff_in_range s now = cutoff_in_range self now"
    by (rule cutoff_in_range_cong [OF cfg])
  have none: "posted out = []" if "standard_logging_object kw = None"
    unfolding out by (simp add: step_missing_payload [OF that])
  have some: "(posted out \<noteq> [] \<longleftrightarrow>
           threshold_of self \<le> int (length (post_prune_events s now slp))) \<and>
        (threshold_of self \<le> 0 \<longrightarrow> posted out \<noteq> []) \<and>
        (int (length (post_prune_events s now slp)) = threshold_of self \<longrightarrow>
           posted out \<noteq> [])"
    if slp: "standard_logging_object kw = Some slp" and r: "cutoff_in_range self now" for slp
    unfolding out step_posted [OF slp]
    using r by (simp add: cfg rng send_alert_to_pagerduty_def Let_def)
  have over: "posted out = [] \<and> raised out = Some OverflowError"
    if slp: "standard_logging_object kw = Some slp" and r: "\<not> cutoff_in_range self now" for slp
    unfolding out using step_overflow [OF slp, of s now post] r by (simp add: rng)
  have le1: "length (posted out) \<le> 1"
  proof (cases "standard_logging_object kw")
    case None
    then show ?thesis by (simp add: none)
  next
    case (Some slp)
    show ?thesis
      unfolding out step_posted [OF Some]
      by (simp add: send_alert_to_pagerduty_def Let_def)
  qed
  from none some over le1
  show "(standard_logging_object kw = None \<longrightarrow> posted out = []) \<and>
     length (posted out) \<le> 1 \<and>
     (\<forall>slp. standard_logging_object kw = Some slp \<longrightarrow>
        (cutoff_in_range self now \<longrightarrow>
           (posted out \<noteq> [] \<longleftrightarrow>
              threshold_of self \<le> int (length (post_prune_events s now slp))) \<and>
           (threshold_of self \<le> 0 \<longrightarrow> posted out \<noteq> []) \<and>
           (int (length (post_prune_events s now slp)) = threshold_of self \<longrightarrow>
              posted out \<noteq> [])) \<and>
        (\<not> cutoff_in_range self now \<longrightarrow>
           posted out = [] \<and> raised out = Some OverflowError))"
    by blast
qed

text \<open>With a window of 60 s and a threshold of 3, failures at 0 s, 10 s and 20 s leave
  1, 2 and 3 events after the prune and only the third call dispatches; the call at 80 s
  starts from the cleared store, keeps one event and does not dispatch. Every one of the
  four cutoffs is in range.\<close>

theorem threshold_crossing_dispatch_witness:
  "threshold_of example_engine = 3 \<and>
   standard_logging_object example_kwargs = Some example_payload \<and>
   list_all (\<lambda>(post, now, kw). cutoff_in_range example_engine now) example_calls \<and>
   map (\<lambda>(s, now, kw, out).
          (length (post_prune_events s now example_payload), length (posted out)))
     (ingest_seq example_engine example_calls) = [(1, 0), (2, 0), (3, 1), (1, 0)]"
proof -
  let ?E = "\<lambda>t. new_failure_event t example_payload"
  let ?call = "\<lambda>s t. async_log_failure_event post_accepts s t example_kwargs"
  let ?s1 = "example_engine\<lparr>failure_events := [?E 0]\<rparr>"
  let ?s2 = "example_engine\<lparr>failure_events := [?E 0, ?E 10000000]\<rparr>"
  have e1: "engine (?call example_engine 0) = ?s1"
    and p1: "length (posted (?call example_engine 0)) = 0"
    and q1: "length (post_prune_events example_engine 0 example_payload) = 1"
    by (simp_all add: example_defs model_defs)
  have e2: "engine (?call ?s1 10000000) = ?s2"
    and p2: "length (posted (?call ?s1 10000000)) = 0"
    and q2: "length (post_prune_events ?s1 10000000 example_payload) = 2"
    by (simp_all add: example_defs model_defs)
  have e3: "engine (?call ?s2 20000000) = example_engine"
    and p3: "length (posted (?call ?s2 20000000)) = 1"
    and q3: "length (post_prune_events ?s2 20000000 example_payload) = 3"
    by (simp_all add: example_defs model_defs)
  have p4: "length (posted (?call example_engine 80000000)) = 0"
    and q4: "length (post_prune_events example_engine 80000000 example_payload) = 1"
    by (simp_all add: example_defs model_defs)
  have rng: "list_all (\<lambda>(post, now, kw). cutoff_in_range example_engine now) example_calls"
    by (simp add: example_defs model_defs)
  have cfg: "threshold_of example_engine = 3"
    "standard_logging_object example_kwargs = Some example_payload"
    by (simp_all add: example_defs model_defs)
  have tr: "map (\<lambda>(s, now, kw, out).
          (length (post_prune_events s now example_payload), length (posted out)))
     (ingest_seq example_engine example_calls) = [(1, 0), (2, 0), (3, 1), (1, 0)]"
    by (simp add: example_calls_def Let_def e1 e2 e3 p1 p2 p3 p4 q1 q2 q3 q4)
  from threshold_crossing_dispatch [of example_engine example_calls] rng cfg tr
  show ?thesis by blast
qed


section \<open>Pruning and the window\<close>

text \<open>
  Claim C2. For every store and every cutoff, pruning keeps exactly the events whose
  timestamp is strictly greater than the cutoff: an event at the cutoff or before it is
  removed, every later event is kept, with its multiplicity and in the order the store had
  (the result is the store filtered, a subsequence of it). Nothing else of the object
  changes. The prune of an ingestion at time \<open>now\<close> therefore leaves exactly the events,
  the new one included, with timestamp greater than \<open>now\<close> minus the window, and, when
  line 83 yields the cutoff, that is the store the call leaves behind when it does not
  dispatch.
\<close>

theorem prune_keeps_exactly_window:
  "(let kept = failure_events (prune_failure_events self cutoff); evs = failure_events self in
      kept = filter (\<lambda>fe. cutoff < timestamp fe) evs \<and>
      (\<forall>fe \<in> set evs. fe \<in> set kept \<longleftrightarrow> cutoff < timestamp fe) \<and>
      (\<forall>fe \<in> set evs. timestamp fe = cutoff \<longrightarrow> fe \<notin> set kept) \<and>
      set kept \<subseteq> set evs \<and>
      subseq kept evs \<and>
      api_key (prune_failure_events self cutoff) = api_key self \<and>
      alerting_config (prune_failure_events self cutoff) = alerting_config self) \<and>
   post_prune_events self now slp =
     filter (\<lambda>fe. now - window_of self * 1000000 < timestamp fe)
       (failure_events self @ [new_failure_event now slp]) \<and>
   (standard_logging_object kw = Some slp \<and> cutoff_in_range self now \<and>
    posted (async_log_failure_event post self now kw) = [] \<longrightarrow>
      failure_events (engine (async_log_failure_event post self now kw)) =
        filter (\<lambda>fe. now - window_of self * 1000000 < timestamp fe)
          (failure_events self @ [new_failure_event now slp]))"
proof -
  have a: "failure_events (prune_failure_events self cutoff) =
      filter (\<lambda>fe. cutoff < timestamp fe) (failure_events self)"
    by (rule failure_events_prune)
  have b: "post_prune_events self now slp =
     filter (\<lambda>fe. now - window_of self * 1000000 < timestamp fe)
       (failure_events self @ [new_failure_event now slp])"
    by (rule post_prune_events_filter)
  have c: "failure_events (engine (async_log_failure_event post self now kw)) =
        post_prune_events self now slp"
    if "standard_logging_object kw = Some slp" "cutoff_in_range self now"
      "posted (async_log_failure_event post self now kw) = []"
  proof (cases "threshold_of self \<le> int (length (post_prune_events self now slp))")
    case True
    with that show ?thesis
      by (simp add: step_posted send_alert_to_pagerduty_def Let_def)
  next
    case False
    with that(1,2) show ?thesis by (simp add: step_engine_no_dispatch)
  qed
  show ?thesis
    unfolding Let_def a
    using b c by (auto simp: prune_failure_events_def)
qed

text \<open>Events at 10 s, 20 s and 30 s pruned at the cutoff 20 s: only the one at 30 s
  stays. An ingestion at 85 s with a window of 60 s keeps the event at 30 s and the new
  one; two events are below the threshold of 3, so nothing is posted.\<close>

theorem prune_keeps_exactly_window_witness:
  "failure_events (prune_failure_events example_store 20000000) =
     [example_event 30000000 (Some [])] \<and>
   standard_logging_object example_kwargs = Some example_payload \<and>
   cutoff_in_range example_store 85000000 \<and>
   posted (async_log_failure_event post_accepts example_store 85000000 example_kwargs) = [] \<and>
   failure_events
     (engine (async_log_failure_event post_accepts example_store 85000000 example_kwargs)) =
     [example_event 30000000 (Some []), new_failure_event 85000000 example_payload]"
  using prune_keeps_exactly_window [of example_store 20000000 85000000 example_payload
      example_kwargs post_accepts]
  by (simp add: example_defs model_defs)


section \<open>Clearing the store after a dispatch\<close>

text \<open>
  Claim C3, as amended. In every ingestion in which the threshold is crossed (line 83
  having yielded the cutoff), exactly one request is handed to the transport. When the
  send returns (whatever the response), the call ends normally and leaves the store
  empty. When the send raises, the exception leaves the call and the store is not cleared:
  it holds exactly the events the prune kept, and whenever the window is above 0 the
  event just appended is the last of them.
\<close>

theorem store_cleared_when_send_returns:
  "standard_logging_object kw = Some slp \<Longrightarrow>
   cutoff_in_range self now \<Longrightarrow>
   threshold_of self \<le> int (length (post_prune_events self now slp)) \<Longrightarrow>
   \<exists>req. posted (async_log_failure_event post self now kw) = [req] \<and>
     (case post req of
        Inl e \<Rightarrow>
          raised (async_log_failure_event post self now kw) = Some e \<and>
          failure_events (engine (async_log_failure_event post self now kw)) =
            post_prune_events self now slp \<and>
          (0 < window_of self \<longrightarrow>
             failure_events (engine (async_log_failure_event post self now kw)) \<noteq> [] \<and>
             last (failure_events (engine (async_log_failure_event post self now kw))) =
               new_failure_event now slp)
      | Inr resp \<Rightarrow>
          raised (async_log_failure_event post self now kw) = None \<and>
          failure_events (engine (async_log_failure_event post self now kw)) = [])"
proof -
  assume slp: "standard_logging_object kw = Some slp"
    and rng: "cutoff_in_range self now"
    and crossed: "threshold_of self \<le> int (length (post_prune_events self now slp))"
  have fresh: "post_prune_events self now slp \<noteq> [] \<and>
      last (post_prune_events self now slp) = new_failure_event now slp"
    if "0 < window_of self"
    using that by (simp add: post_prune_events_filter timestamp_new_failure_event)
  from slp rng crossed
  have "\<exists>req. posted (async_log_failure_event post self now kw) = [req] \<and>
     (case post req of
        Inl e \<Rightarrow>
          raised (async_log_failure_event post self now kw) = Some e \<and>
          failure_events (engine (async_log_failure_event post self now kw)) =
            post_prune_events self now slp
      | Inr resp \<Rightarrow>
          raised (async_log_failure_event post self now kw) = None \<and>
          failure_events (engine (async_log_failure_event post self now kw)) = [])"
    by (simp add: async_log_failure_event_def post_prune_events_def Let_def
        compute_cutoff_in_range build_error_summaries_def send_alert_to_pagerduty_def
        split: sum.splits)
  then obtain req where
    p: "posted (async_log_failure_event post self now kw) = [req]" and
    c: "case post req of
        Inl e \<Rightarrow>
          raised (async_log_failure_event post self now kw) = Some e \<and>
          failure_events (engine (async_log_failure_event post self now kw)) =
            post_prune_events self now slp
      | Inr resp \<Rightarrow>
          raised (async_log_failure_event post self now kw) = None \<and>
          failure_events (engine (async_log_failure_event post self now kw)) = []"
    by blast
  show ?thesis
  proof (rule exI [of _ req], rule conjI [OF p])
    show "case post req of
        Inl e \<Rightarrow>
          raised (async_log_failure_event post self now kw) = Some e \<and>
          failure_events (engine (async_log_failure_event post self now kw)) =
            post_prune_events self now slp \<and>
          (0 < window_of self \<longrightarrow>
             failure_events (engine (async_log_failure_event post self now kw)) \<noteq> [] \<and>
             last (failure_events (engine (async_log_failure_event post self now kw))) =
               new_failure_event now slp)
      | Inr resp \<Rightarrow>
          raised (async_log_failure_event post self now kw) = None \<and>
          failure_events (engine (async_log_failure_event post self now kw)) = []"
      using c fresh by (cases "post req") auto
  qed
qed

text \<open>Default configuration (window 60 s, threshold 1), empty store. With a transport
  that accepts, the first failure dispatches and the store is empty afterwards; with one
  that raises, the store keeps the new event.\<close>

theorem store_cleared_when_send_returns_witness:
  "standard_logging_object example_kwargs = Some example_payload \<and>
   cutoff_in_range default_engine 0 \<and>
   threshold_of default_engine \<le>
     int (length (post_prune_events default_engine 0 example_payload)) \<and>
   length (posted (async_log_failure_event post_accepts default_engine 0 example_kwargs)) = 1 \<and>
   raised (async_log_failure_event post_accepts default_engine 0 example_kwargs) = None \<and>
   failure_events
     (engine (async_log_failure_event post_accepts default_engine 0 example_kwargs)) = [] \<and>
   0 < window_of default_engine \<and>
   last (failure_events
     (engine (async_log_failure_event post_raises default_engine 0 example_kwargs))) =
     new_failure_event 0 example_payload"
  using store_cleared_when_send_returns
    [of example_kwargs example_payload default_engine 0 post_accepts]
    store_cleared_when_send_returns
    [of example_kwargs example_payload default_engine 0 post_raises]
  by (simp add: example_defs model_defs)

text \<open>The claim as written (the store is cleared whether the send succeeds or fails) does
  not hold: with the same input and a transport that raises, the threshold is crossed, the
  request is handed over, the error leaves the call, and the store still holds the event.\<close>

theorem store_kept_when_send_raises:
  "standard_logging_object example_kwargs = Some example_payload \<and>
   cutoff_in_range default_engine 0 \<and>
   threshold_of default_engine \<le>
     int (length (post_prune_events default_engine 0 example_payload)) \<and>
   length (posted (async_log_failure_event post_raises default_engine 0 example_kwargs)) = 1 \<and>
   raised (async_log_failure_event post_raises default_engine 0 example_kwargs) =
     Some (TransportError ''connection refused'') \<and>
   failure_events
     (engine (async_log_failure_event post_raises default_engine 0 example_kwargs)) =
     [new_failure_event 0 example_payload] \<and>
   failure_events
     (engine (async_log_failure_event post_raises default_engine 0 example_kwargs)) \<noteq> []"
  by (simp add: example_defs model_defs)


section \<open>A call without payload\<close>

text \<open>
  Claim C4. When the standard logging object is missing from the arguments, the call
  raises \<open>ValueError\<close> with the message naming the missing object, the object is left
  exactly as it was (no event appended, nothing pruned), and no request is posted.
\<close>

theorem missing_payload_rejected:
  "standard_logging_object kw = None \<Longrightarrow>
     async_log_failure_event post self now kw =
       \<lparr>raised = Some (ValueError ''standard_logging_object is required for PagerDutyAlerting''),
        engine = self, posted = []\<rparr>"
  by (rule step_missing_payload)

text \<open>A store of three events that a prune at this time would empty keeps all three.\<close>

theorem missing_payload_rejected_witness:
  "standard_logging_object \<lparr>standard_logging_object = None\<rparr> = None \<and>
   async_log_failure_event post_accepts example_store 1000000000
       \<lparr>standard_logging_object = None\<rparr> =
     \<lparr>raised = Some (ValueError ''standard_logging_object is required for PagerDutyAlerting''),
      engine = example_store, posted = []\<rparr> \<and>
   length (failure_events example_store) = 3 \<and>
   failure_events (prune_failure_events example_store (1000000000 - 60 * 1000000)) = []"
  using missing_payload_rejected
    [of "\<lparr>standard_logging_object = None\<rparr>" post_accepts example_store 1000000000]
  by (simp add: example_defs model_defs)


section \<open>The summary builder\<close>

text \<open>
  Claim C5. The claim bounds the number of lines by \<open>max_errors\<close> for every
  \<open>max_errors\<close>, as the docstring of the builder does (summaries for the last
  \<open>max_errors\<close> events). The code does not keep the bound at \<open>max_errors = 0\<close>: the slice
  \<^verbatim>\<open>[-0:]\<close> is the whole list, and on a store of three events the builder returns three
  lines where the claim and the docstring allow none.
\<close>

theorem zero_max_errors_exceeds_bound:
  "length (failure_events example_store) = 3 \<and>
   fst (build_error_summaries example_store 0) =
     [''N/A (code: N/A, provider: N/A)'', ''Timeout (code: N/A, provider: N/A)'',
      ''N/A (code: N/A, provider: N/A)''] \<and>
   \<not> int (length (fst (build_error_summaries example_store 0))) \<le> 0"
  by (simp add: example_defs model_defs)

text \<open>
  Claim C9. With \<open>max_errors = 0\<close> the slice \<^verbatim>\<open>[-0:]\<close> is the whole list: the builder
  returns one line for every event of the store.
\<close>

theorem zero_max_errors_whole_store:
  "build_error_summaries self 0 = (map summary_line (failure_events self), self)"
  by (simp add: build_error_summaries_def summaries_loop_map slice_last_zero)

theorem zero_max_errors_whole_store_witness:
  "fst (build_error_summaries example_store 0) =
     [''N/A (code: N/A, provider: N/A)'', ''Timeout (code: N/A, provider: N/A)'',
      ''N/A (code: N/A, provider: N/A)'']"
  using zero_max_errors_whole_store [of example_store]
  by (simp add: example_defs summary_line_def or_na_def)

text \<open>
  Claim C6. Every summary line has the form \<open>c (code: k, provider: p)\<close> where \<open>c\<close>, \<open>k\<close>
  and \<open>p\<close> are the error class, the error code and the provider of the event, each
  replaced by \<open>N/A\<close> when it is absent or the empty string; none of the three is ever
  empty. An event with all three absent renders as \<open>N/A (code: N/A, provider: N/A)\<close>.
  Every line the builder returns is the line of an event of the store.
\<close>

theorem summary_line_placeholders:
  "(\<exists>c k p. summary_line fe = c @ '' (code: '' @ k @ '', provider: '' @ p @ '')'' \<and>
       c \<noteq> [] \<and> k \<noteq> [] \<and> p \<noteq> [] \<and>
       (case error_class fe of
          None \<Rightarrow> c = ''N/A'' | Some s \<Rightarrow> c = (if s = [] then ''N/A'' else s)) \<and>
       (case error_code fe of
          None \<Rightarrow> k = ''N/A'' | Some s \<Rightarrow> k = (if s = [] then ''N/A'' else s)) \<and>
       (case error_llm_provider fe of
          None \<Rightarrow> p = ''N/A'' | Some s \<Rightarrow> p = (if s = [] then ''N/A'' else s))) \<and>
   (error_class fe = None \<and> error_code fe = None \<and> error_llm_provider fe = None \<longrightarrow>
      summary_line fe = ''N/A (code: N/A, provider: N/A)'') \<and>
   (\<forall>l \<in> set (fst (build_error_summaries self max_errors)).
      \<exists>fe' \<in> set (failure_events self). l = summary_line fe')"
proof -
  have 1: "\<exists>c k p. summary_line fe = c @ '' (code: '' @ k @ '', provider: '' @ p @ '')'' \<and>
       c \<noteq> [] \<and> k \<noteq> [] \<and> p \<noteq> [] \<and>
       (case error_class fe of
          None \<Rightarrow> c = ''N/A'' | Some s \<Rightarrow> c = (if s = [] then ''N/A'' else s)) \<and>
       (case error_code fe of
          None \<Rightarrow> k = ''N/A'' | Some s \<Rightarrow> k = (if s = [] then ''N/A'' else s)) \<and>
       (case error_llm_provider fe of
          None \<Rightarrow> p = ''N/A'' | Some s \<Rightarrow> p = (if s = [] then ''N/A'' else s))"
    apply (rule exI [of _ "or_na (error_class fe)"])
    apply (rule exI [of _ "or_na (error_code fe)"])
    apply (rule exI [of _ "or_na (error_llm_provider fe)"])
    apply (simp add: summary_line_def or_na_nonempty)
    apply (simp add: or_na_def split: option.splits)
    done
  have 2: "error_class fe = None \<and> error_code fe = None \<and> error_llm_provider fe = None \<longrightarrow>
      summary_line fe = ''N/A (code: N/A, provider: N/A)''"
    by (simp add: summary_line_def or_na_def)
  have 3: "\<forall>l \<in> set (fst (build_error_summaries self max_errors)).
      \<exists>fe' \<in> set (failure_events self). l = summary_line fe'"
    by (auto simp: build_error_summaries_def Let_def summaries_loop_map slice_last_def
        dest: in_set_dropD)
  from 1 2 3 show ?thesis by blast
qed

theorem summary_line_placeholders_witness:
  "error_class (example_event 0 None) = None \<and>
   error_code (example_event 0 None) = None \<and>
   error_llm_provider (example_event 0 None) = None \<and>
   summary_line (example_event 0 None) = ''N/A (code: N/A, provider: N/A)'' \<and>
   set (fst (build_error_summaries example_store 5)) =
     {''N/A (code: N/A, provider: N/A)'', ''Timeout (code: N/A, provider: N/A)''}"
  using summary_line_placeholders [of "example_event 0 None" example_store 5]
  by (simp add: example_defs model_defs insert_commute)


section \<open>Construction of the engine\<close>

text \<open>
  Claim C7. Construction returns the error \<open>ValueError\<close> (no object is built) when the
  environment has no \<^verbatim>\<open>PAGERDUTY_API_KEY\<close>, and likewise when its value is the empty
  string; the configuration plays no part in that. With a non-empty key, construction
  returns the object holding that key, the configuration given, and an empty store.
\<close>

theorem construction_requires_secret:
  "(environ ''PAGERDUTY_API_KEY'' = None \<longrightarrow>
      PagerDutyAlerting_init environ cfg = Inl (ValueError ''PAGERDUTY_API_KEY is not set'')) \<and>
   (environ ''PAGERDUTY_API_KEY'' = Some [] \<longrightarrow>
      PagerDutyAlerting_init environ cfg = Inl (ValueError ''PAGERDUTY_API_KEY is not set'')) \<and>
   (\<forall>k. environ ''PAGERDUTY_API_KEY'' = Some k \<and> k \<noteq> [] \<longrightarrow>
      PagerDutyAlerting_init environ cfg =
        Inr \<lparr>api_key = k, alerting_config = cfg, failure_events = []\<rparr>)"
  by (simp add: PagerDutyAlerting_init_def)

theorem construction_requires_secret_witness:
  "PagerDutyAlerting_init Map.empty default_config =
     Inl (ValueError ''PAGERDUTY_API_KEY is not set'') \<and>
   PagerDutyAlerting_init [''PAGERDUTY_API_KEY'' \<mapsto> []] default_config =
     Inl (ValueError ''PAGERDUTY_API_KEY is not set'') \<and>
   example_environ ''PAGERDUTY_API_KEY'' = Some ''R0UT1NG'' \<and>
   PagerDutyAlerting_init example_environ default_config = Inr default_engine \<and>
   failure_events default_engine = []"
  using construction_requires_secret [of Map.empty default_config]
    construction_requires_secret [of "[''PAGERDUTY_API_KEY'' \<mapsto> []]" default_config]
    construction_requires_secret [of example_environ default_config]
  by (simp add: example_defs)


section \<open>The request sent to the paging service\<close>

text \<open>
  Claim C8. Every request posted by an ingestion, along any sequence of calls on an
  object built by the constructor, goes to the fixed enqueue URL with the header
  \<open>Content-Type: application/json\<close>, and its JSON body is the object of the
  specification: \<open>payload\<close> with the summary text, \<open>severity\<close> \<open>critical\<close>, the
  \<open>source\<close> and \<open>component\<close> strings, the same two for every request (\<open>LiteLLM Alert\<close>
  and \<open>LiteLLM\<close>), and \<open>custom_details\<close> holding the rendered lines under
  \<open>recent_errors\<close>; then \<open>routing_key\<close>, the key read at construction, and
  \<open>event_action\<close> \<open>trigger\<close>; no other key. The summary text states the number of
  retained events and the window; the lines are those of the last five retained events.
\<close>

theorem alert_payload_shape:
  "PagerDutyAlerting_init environ cfg = Inr self \<Longrightarrow>
   (s, now, kw, out) \<in> set (ingest_seq self calls) \<Longrightarrow>
   req \<in> set (posted out) \<Longrightarrow>
   \<exists>slp k. standard_logging_object kw = Some slp \<and> environ ''PAGERDUTY_API_KEY'' = Some k \<and>
     url req = ''https://events.pagerduty.com/v2/enqueue'' \<and>
     headers req = [(''Content-Type'', ''application/json'')] \<and>
     json_body req =
       spec_request_body
         (alert_message_text (length (post_prune_events s now slp)) (window_of self))
         ''LiteLLM Alert'' ''LiteLLM''
         (map summary_line (slice_last (post_prune_events s now slp) 5))
         k"
proof -
  assume init: "PagerDutyAlerting_init environ cfg = Inr self"
    and mem: "(s, now, kw, out) \<in> set (ingest_seq self calls)"
    and req: "req \<in> set (posted out)"
  from init obtain k where k: "environ ''PAGERDUTY_API_KEY'' = Some k" "api_key self = k"
    by (auto simp: PagerDutyAlerting_init_def split: option.splits if_splits)
  from seq_invariants [OF mem] obtain post where
    cfg: "alerting_config s = alerting_config self" and
    key: "api_key s = api_key self" and
    out: "out = async_log_failure_event post s now kw" by blast
  from req out obtain slp where slp: "standard_logging_object kw = Some slp"
    by (cases "standard_logging_object kw") (auto simp: async_log_failure_event_def)
  from req have "posted out = [req]"
    unfolding out step_posted [OF slp]
    by (simp add: send_alert_to_pagerduty_def Let_def split: if_splits)
  then have "req = \<lparr>url = ''https://events.pagerduty.com/v2/enqueue'',
      json_body = spec_request_body
         (alert_message_text (length (post_prune_events s now slp)) (window_of s))
         ''LiteLLM Alert'' ''LiteLLM''
         (map summary_line (slice_last (post_prune_events s now slp) 5))
         (api_key s),
      headers = [(''Content-Type'', ''application/json'')]\<rparr>"
    unfolding out step_posted [OF slp]
    by (simp add: send_alert_to_pagerduty_def Let_def spec_request_body_def
        prune_failure_events_def split: if_splits)
  with slp k cfg key show ?thesis by simp
qed

text \<open>The object built from an environment holding the key, default configuration: the
  first failure posts the request written out as \<open>example_request\<close>.\<close>

theorem alert_payload_shape_witness:
  "PagerDutyAlerting_init example_environ default_config = Inr default_engine \<and>
   ingest_seq default_engine [(post_accepts, 0, example_kwargs)] =
     [(default_engine, 0, example_kwargs,
       async_log_failure_event post_accepts default_engine 0 example_kwargs)] \<and>
   posted (async_log_failure_event post_accepts default_engine 0 example_kwargs) =
     [example_request] \<and>
   json_body example_request =
     spec_request_body ''High LLM API Failure Rate: 1 failures in the last 60 seconds.''
       ''LiteLLM Alert'' ''LiteLLM''
       [''RateLimitError (code: 429, provider: N/A)''] ''R0UT1NG''"
proof -
  have init: "PagerDutyAlerting_init example_environ default_config = Inr default_engine"
    by (simp add: PagerDutyAlerting_init_def example_defs)
  have tr: "ingest_seq default_engine [(post_accepts, 0, example_kwargs)] =
     [(default_engine, 0, example_kwargs,
       async_log_failure_event post_accepts default_engine 0 example_kwargs)]"
    by (simp add: Let_def)
  have req: "posted (async_log_failure_event post_accepts default_engine 0 example_kwargs) =
      [example_request]"
    by (simp add: example_defs model_defs example_request_def alert_message_text_def
        str_int_def str_nat.simps digit_char_def)
  have mem: "(default_engine, 0, example_kwargs,
       async_log_failure_event post_accepts default_engine 0 example_kwargs)
     \<in> set (ingest_seq default_engine [(post_accepts, 0, example_kwargs)])"
    by (simp add: tr)
  have "example_request \<in>
      set (posted (async_log_failure_event post_accepts default_engine 0 example_kwargs))"
    by (simp add: req)
  from alert_payload_shape [OF init mem this]
  have "json_body example_request =
     spec_request_body ''High LLM API Failure Rate: 1 failures in the last 60 seconds.''
       ''LiteLLM Alert'' ''LiteLLM''
       [''RateLimitError (code: 429, provider: N/A)''] ''R0UT1NG''"
    by (simp add: example_request_def spec_request_body_def)
  with init tr req show ?thesis by simp
qed


section \<open>The event just appended\<close>

text \<open>
  Claim C10. In an ingestion whose line 83 yields the cutoff: with a window above 0 the
  event appended by the call has a timestamp (\<open>now\<close>) above the cutoff and survives the
  prune of that call, as the last event of the store, so the threshold is compared with a
  count of at least 1 and a threshold of 1 or below dispatches; with a window of 0 the
  cutoff is \<open>now\<close> itself, the new event is pruned in the same call and is not among the
  events counted: the store after the prune is what the earlier events alone leave, and
  when none of them is later than \<open>now\<close> and the threshold is at least 1, the call posts
  nothing and leaves the store empty.
\<close>

theorem fresh_event_survives_prune:
  "standard_logging_object kw = Some slp \<Longrightarrow>
   cutoff_in_range self now \<Longrightarrow>
   (0 < window_of self \<longrightarrow>
      post_prune_events self now slp =
        filter (\<lambda>fe. now - window_of self * 1000000 < timestamp fe) (failure_events self) @
          [new_failure_event now slp] \<and>
      1 \<le> length (post_prune_events self now slp) \<and>
      (threshold_of self \<le> 1 \<longrightarrow> posted (async_log_failure_event post self now kw) \<noteq> []) \<and>
      (\<not> threshold_of self \<le> int (length (post_prune_events self now slp)) \<longrightarrow>
         failure_events (engine (async_log_failure_event post self now kw)) \<noteq> [] \<and>
         last (failure_events (engine (async_log_failure_event post self now kw))) =
           new_failure_event now slp)) \<and>
   (window_of self = 0 \<longrightarrow>
      post_prune_events self now slp =
        filter (\<lambda>fe. now < timestamp fe) (failure_events self) \<and>
      new_failure_event now slp \<notin> set (post_prune_events self now slp) \<and>
      (1 \<le> threshold_of self \<and> (\<forall>fe \<in> set (failure_events self). timestamp fe \<le> now) \<longrightarrow>
         posted (async_log_failure_event post self now kw) = [] \<and>
         failure_events (engine (async_log_failure_event post self now kw)) = []))"
proof -
  assume slp: "standard_logging_object kw = Some slp" and rng: "cutoff_in_range self now"
  have pos: "post_prune_events self now slp =
        filter (\<lambda>fe. now - window_of self * 1000000 < timestamp fe) (failure_events self) @
          [new_failure_event now slp]" if "0 < window_of self"
    using that by (simp add: post_prune_events_filter timestamp_new_failure_event)
  have zero: "post_prune_events self now slp =
      filter (\<lambda>fe. now < timestamp fe) (failure_events self)"
    if "window_of self = 0"
    using that by (simp add: post_prune_events_filter timestamp_new_failure_event)
  have pos_dispatch: "posted (async_log_failure_event post self now kw) \<noteq> []"
    if "0 < window_of self" "threshold_of self \<le> 1"
    using that pos [OF that(1)] rng
    by (simp add: step_posted [OF slp] send_alert_to_pagerduty_def Let_def)
  have pos_kept: "failure_events (engine (async_log_failure_event post self now kw)) \<noteq> [] \<and>
         last (failure_events (engine (async_log_failure_event post self now kw))) =
           new_failure_event now slp"
    if "0 < window_of self"
      "\<not> threshold_of self \<le> int (length (post_prune_events self now slp))"
    using step_engine_no_dispatch [OF slp rng that(2), of post] pos [OF that(1)] by simp
  have zero_empty: "post_prune_events self now slp = []"
    if "window_of self = 0" "\<forall>fe \<in> set (failure_events self). timestamp fe \<le> now"
    unfolding zero [OF that(1)] using that(2) by (auto simp: filter_empty_conv)
  have zero_quiet: "async_log_failure_event post self now kw =
      \<lparr>raised = None, engine = self\<lparr>failure_events := []\<rparr>, posted = []\<rparr>"
    if "window_of self = 0" "\<forall>fe \<in> set (failure_events self). timestamp fe \<le> now"
      "1 \<le> threshold_of self"
    using step_engine_no_dispatch [OF slp rng, of post] zero_empty [OF that(1,2)] that(3)
    by simp
  show ?thesis
    using pos zero pos_dispatch pos_kept zero_quiet
    by (auto simp: timestamp_new_failure_event)
qed

text \<open>Window 60 s: the first failure is the one event counted, and with the default
  threshold 1 it dispatches; with threshold 3 it stays in the store. Window 0 s and
  threshold 1, the store holding an event five seconds old: a failure at 7 s leaves
  nothing after the prune and nothing is posted.\<close>

theorem fresh_event_survives_prune_witness:
  "standard_logging_object example_kwargs = Some example_payload \<and>
   cutoff_in_range example_engine 0 \<and> 0 < window_of example_engine \<and>
   post_prune_events example_engine 0 example_payload = [new_failure_event 0 example_payload] \<and>
   failure_events (engine (async_log_failure_event post_accepts example_engine 0 example_kwargs)) =
     [new_failure_event 0 example_payload] \<and>
   cutoff_in_range default_engine 0 \<and>
   0 < window_of default_engine \<and> threshold_of default_engine \<le> 1 \<and>
   length (posted (async_log_failure_event post_accepts default_engine 0 example_kwargs)) = 1 \<and>
   cutoff_in_range zero_window_engine 7000000 \<and>
   window_of zero_window_engine = 0 \<and> 1 \<le> threshold_of zero_window_engine \<and>
   list_all (\<lambda>fe. timestamp fe \<le> 7000000) (failure_events zero_window_engine) \<and>
   post_prune_events zero_window_engine 7000000 example_payload = [] \<and>
   posted (async_log_failure_event post_accepts zero_window_engine 7000000 example_kwargs) = [] \<and>
   failure_events
     (engine (async_log_failure_event post_accepts zero_window_engine 7000000 example_kwargs)) = []"
  using fresh_event_survives_prune [of example_kwargs example_payload example_engine 0 post_accepts]
    fresh_event_survives_prune [of example_kwargs example_payload default_engine 0 post_accepts]
    fresh_event_survives_prune
      [of example_kwargs example_payload zero_window_engine 7000000 post_accepts]
  by (simp add: example_defs model_defs)

end
